theory Spec2Isabelle
  imports Main
begin

section \<open>Match-result extraction of \<open>atp.py\<close>\<close>

text \<open>
  The theory embeds \<open>ATP.get_tournament_singles_results\<close> of \<open>src/atp.py\<close>.
  The HTTP request and the HTML parser are outside the repository: the input of the
  model is the parsed page, given as the results of the XPath queries the function asks.
  A Python \<open>str\<close> is a \<open>string\<close>; only code points below 256 are covered.
  An exception is a value \<open>Inl e\<close> of the sum type \<open>error + 'a\<close>.
\<close>

subsection \<open>Errors and Python's list and string primitives\<close>

datatype error = IndexError | ValueError

text \<open>\<open>xs[i]\<close>: a negative index counts from the end, out of range raises.\<close>

definition py_index :: "'a list \<Rightarrow> int \<Rightarrow> error + 'a" where
  "py_index xs i =
     (if 0 \<le> i \<and> i < int (length xs) then Inr (xs ! nat i)
      else if i < 0 \<and> - int (length xs) \<le> i then Inr (xs ! nat (int (length xs) + i))
      else Inl IndexError)"

definition bind_r :: "error + 'a \<Rightarrow> ('a \<Rightarrow> error + 'b) \<Rightarrow> error + 'b" where
  "bind_r m f = (case m of Inl e \<Rightarrow> Inl e | Inr x \<Rightarrow> f x)"

text \<open>\<open>str.isspace\<close> on code points below 256.\<close>

definition is_space :: "char \<Rightarrow> bool" where
  "is_space c = ((of_char c :: nat) \<in> {9, 10, 11, 12, 13, 28, 29, 30, 31, 32, 133, 160})"

definition is_digit :: "char \<Rightarrow> bool" where
  "is_digit c = (48 \<le> (of_char c :: nat) \<and> (of_char c :: nat) \<le> 57)"

definition digit_val :: "char \<Rightarrow> int" where
  "digit_val c = int (of_char c) - 48"

text \<open>\<open>s.strip()\<close>\<close>

definition strip :: "string \<Rightarrow> string" where
  "strip s = rev (dropWhile is_space (rev (dropWhile is_space s)))"

text \<open>\<open>s.split(c)\<close> for a separator of one character: never the empty list.\<close>

fun split :: "char \<Rightarrow> string \<Rightarrow> string list" where
  "split c [] = [[]]"
| "split c (x # xs) =
     (if x = c then [] # split c xs
      else (case split c xs of [] \<Rightarrow> [[x]] | w # ws \<Rightarrow> (x # w) # ws))"

text \<open>
  \<open>int(s)\<close> in base 10: surrounding white space, an optional sign, then decimal digits,
  where single underscores may stand between digits. Anything else raises ValueError,
  and so does a text of more than 4300 digits (the interpreter's default limit; the
  underscores, the sign and the white space do not count, leading zeros do). The white
  space \<open>int\<close> skips is narrower than that of \<open>str.strip\<close>: the separators U+001C to
  U+001F are not skipped.
\<close>

definition is_int_space :: "char \<Rightarrow> bool" where
  "is_int_space c = ((of_char c :: nat) \<in> {9, 10, 11, 12, 13, 32, 133, 160})"

definition int_max_str_digits :: nat where
  "int_max_str_digits = 4300"

fun int_digits :: "string \<Rightarrow> int \<Rightarrow> int option" where
  "int_digits [] acc = Some acc"
| "int_digits [c] acc = (if is_digit c then Some (10 * acc + digit_val c) else None)"
| "int_digits (c # d # rest) acc =
     (if is_digit c then int_digits (d # rest) (10 * acc + digit_val c)
      else if c = CHR ''_'' \<and> is_digit d then int_digits (d # rest) acc
      else None)"

definition int_unsigned :: "string \<Rightarrow> error + int" where
  "int_unsigned u =
     (case u of
        [] \<Rightarrow> Inl ValueError
      | c # r \<Rightarrow>
          (if is_digit c
           then (case int_digits r (digit_val c) of
                   None \<Rightarrow> Inl ValueError
                 | Some v \<Rightarrow>
                     (if length (filter is_digit u) > int_max_str_digits
                      then Inl ValueError else Inr v))
           else Inl ValueError))"

definition py_int :: "string \<Rightarrow> error + int" where
  "py_int s =
     (case rev (dropWhile is_int_space (rev (dropWhile is_int_space s))) of
        [] \<Rightarrow> Inl ValueError
      | c # r \<Rightarrow>
          (if c = CHR ''-'' then (case int_unsigned r of Inl e \<Rightarrow> Inl e | Inr v \<Rightarrow> Inr (- v))
           else if c = CHR ''+'' then int_unsigned r
           else int_unsigned (c # r)))"

subsection \<open>\<open>datetime.strptime(s, '%a, %d %B, %Y').date()\<close>\<close>

text \<open>
  The library turns the format into a regular expression, matched without regard to
  case from the start of the text: an abbreviated weekday name, a comma, white space,
  the day of the month (one or two digits, 1 to 31), white space, a full month name,
  a comma, white space, four digits, and nothing after them. The names are those of
  the C locale. The weekday is not compared with the date; a day the month does not
  have, or the year 0, raises ValueError like a text that does not match.
\<close>

record pydate =
  d_year :: int
  d_month :: int
  d_day :: int

definition lower :: "char \<Rightarrow> char" where
  "lower c = (if 65 \<le> (of_char c :: nat) \<and> (of_char c :: nat) \<le> 90
              then char_of ((of_char c :: nat) + 32) else c)"

definition day_abbr :: "string list" where
  "day_abbr = [''mon'', ''tue'', ''wed'', ''thu'', ''fri'', ''sat'', ''sun'']"

definition month_name :: "string list" where
  "month_name = [''january'', ''february'', ''march'', ''april'', ''may'', ''june'', ''july'',
                 ''august'', ''september'', ''october'', ''november'', ''december'']"

fun strip_prefix_ci :: "string \<Rightarrow> string \<Rightarrow> string option" where
  "strip_prefix_ci [] s = Some s"
| "strip_prefix_ci (n # ns) [] = None"
| "strip_prefix_ci (n # ns) (c # cs) = (if lower c = n then strip_prefix_ci ns cs else None)"

fun match_name :: "string list \<Rightarrow> int \<Rightarrow> string \<Rightarrow> (int \<times> string) option" where
  "match_name [] k s = None"
| "match_name (n # ns) k s =
     (case strip_prefix_ci n s of
        Some rest \<Rightarrow> Some (k, rest)
      | None \<Rightarrow> match_name ns (k + 1) s)"

definition skip_comma :: "string \<Rightarrow> string option" where
  "skip_comma s = (case s of [] \<Rightarrow> None | c # r \<Rightarrow> if c = CHR '','' then Some r else None)"

definition skip_spaces :: "string \<Rightarrow> string option" where
  "skip_spaces s =
     (case s of [] \<Rightarrow> None | c # r \<Rightarrow> if is_space c then Some (dropWhile is_space r) else None)"

definition digits_value :: "string \<Rightarrow> int" where
  "digits_value ds = foldl (\<lambda>a c. 10 * a + digit_val c) 0 ds"

definition is_leap :: "int \<Rightarrow> bool" where
  "is_leap y = (y mod 4 = 0 \<and> (y mod 100 \<noteq> 0 \<or> y mod 400 = 0))"

definition days_in_month :: "int \<Rightarrow> int \<Rightarrow> int" where
  "days_in_month y m =
     (if m = 2 then (if is_leap y then 29 else 28)
      else if m = 4 \<or> m = 6 \<or> m = 9 \<or> m = 11 then 30 else 31)"

definition strptime_fields :: "string \<Rightarrow> (int \<times> int \<times> int) option" where
  "strptime_fields s =
     (case match_name day_abbr 0 s of None \<Rightarrow> None | Some (wd, s1) \<Rightarrow>
      case skip_comma s1 of None \<Rightarrow> None | Some s2 \<Rightarrow>
      case skip_spaces s2 of None \<Rightarrow> None | Some s3 \<Rightarrow>
      let dd = takeWhile is_digit s3; s4 = dropWhile is_digit s3 in
      if \<not> (length dd = 1 \<or> length dd = 2) \<or> digits_value dd < 1 \<or> 31 < digits_value dd
      then None else
      case skip_spaces s4 of None \<Rightarrow> None | Some s5 \<Rightarrow>
      case match_name month_name 1 s5 of None \<Rightarrow> None | Some (mm, s6) \<Rightarrow>
      case skip_comma s6 of None \<Rightarrow> None | Some s7 \<Rightarrow>
      case skip_spaces s7 of None \<Rightarrow> None | Some yy \<Rightarrow>
      if length yy = 4 \<and> list_all is_digit yy
      then Some (digits_value yy, mm, digits_value dd) else None)"

definition strptime :: "string \<Rightarrow> error + pydate" where
  "strptime s =
     (case strptime_fields s of
        None \<Rightarrow> Inl ValueError
      | Some (y, m, d) \<Rightarrow>
          (if 1 \<le> y \<and> d \<le> days_in_month y m
           then Inr \<lparr>d_year = y, d_month = m, d_day = d\<rparr>
           else Inl ValueError))"

subsection \<open>The records of \<open>atp.py\<close>\<close>

record PlayerRef =
  player_id :: string
  player_slug :: string

record TournamentRef =
  tournament_ref_id :: string
  tournament_ref_slug :: string

record MatchRef =
  tournament_id :: string
  year :: int
  match_id :: string

record MatchResult =
  match_ref :: MatchRef
  date :: pydate
  duration :: "int option"
  best_of :: int
  winner :: PlayerRef
  loser :: PlayerRef
  w1 :: "int option"
  w1_tb :: "int option"
  w2 :: "int option"
  w2_tb :: "int option"
  w3 :: "int option"
  w3_tb :: "int option"
  w4 :: "int option"
  w4_tb :: "int option"
  w5 :: "int option"
  w5_tb :: "int option"
  l1 :: "int option"
  l1_tb :: "int option"
  l2 :: "int option"
  l2_tb :: "int option"
  l3 :: "int option"
  l3_tb :: "int option"
  l4 :: "int option"
  l4_tb :: "int option"
  l5 :: "int option"
  l5_tb :: "int option"

subsection \<open>The parsed page\<close>

text \<open>
  Each record holds what the XPath queries of the function return on one element,
  in document order:
  \<^item> a link under \<open>div[@class="match-cta"]\<close>: its text nodes and its \<open>href\<close>;
  \<open>a[text()="Stats"]/@href\<close> selects the targets of the links one of whose text nodes
  is exactly \<open>Stats\<close>;
  \<^item> a \<open>div[@class="stats-item"]\<close>: the \<open>href\<close>s of \<open>div[@class="name"]/a\<close>, for each
  \<open>div[@class="score-item"]\<close> the texts \<open>span/text()\<close>, and the number of
  \<open>div[@class="winner"]\<close> elements;
  \<^item> a \<open>div[@class="match"]\<close>: the texts of \<open>div[@class="match-header"]/span[2]\<close> and
  its stats items;
  \<^item> a \<open>div[@class="atp_accordion-item"]\<close>: the texts of
  \<open>div[@class="tournament-day"]/h4\<close>, its links and its matches;
  \<^item> the document: the \<open>div[@class="atp_accordion-items"]\<close> elements, each the list
  of its items.
\<close>

record cta_link =
  link_texts :: "string list"
  link_href :: "string option"

record stats_item =
  name_hrefs :: "string list"
  score_items :: "string list list"
  winner_divs :: nat

record match_block =
  header_span2 :: "string list"
  stats_items :: "stats_item list"

record accordion_item =
  day_h4 :: "string list"
  cta_links :: "cta_link list"
  matches :: "match_block list"

record doctree =
  accordions :: "accordion_item list list"

definition stats_hrefs :: "accordion_item \<Rightarrow> string list" where
  "stats_hrefs tday =
     concat (map (\<lambda>a. if ''Stats'' \<in> set (link_texts a)
                       then (case link_href a of None \<Rightarrow> [] | Some h \<Rightarrow> [h]) else [])
                 (cta_links tday))"

subsection \<open>\<open>get_tournament_singles_results\<close>\<close>

text \<open>
  Lines 196 to 200: the duration. With exactly one text node the text is stripped,
  split at the colons and unpacked into three integers; a different number of parts
  and a part \<open>int\<close> rejects both raise ValueError.
\<close>

definition parse_duration :: "string list \<Rightarrow> error + int option" where
  "parse_duration ts =
     (if length ts = 1
      then (let parts = split CHR '':'' (strip (ts ! 0)) in
            if length parts \<noteq> 3 then Inl ValueError
            else bind_r (py_int (parts ! 0)) (\<lambda>dur_hrs.
                 bind_r (py_int (parts ! 1)) (\<lambda>dur_mins.
                 bind_r (py_int (parts ! 2)) (\<lambda>_.
                 Inr (Some (dur_hrs * 60 + dur_mins))))))
      else Inr None)"

text \<open>Lines 205 and 206: \<open>PlayerRef(id=href.split('/')[4], slug=href.split('/')[3])\<close>.\<close>

definition player_ref_of :: "string \<Rightarrow> error + PlayerRef" where
  "player_ref_of player_href =
     bind_r (py_index (split CHR ''/'' player_href) 4) (\<lambda>i.
     bind_r (py_index (split CHR ''/'' player_href) 3) (\<lambda>s.
     Inr \<lparr>player_id = i, player_slug = s\<rparr>))"

text \<open>
  Lines 208 to 217: the score entries of one competitor. An entry of one token appends
  the games and no tie-break, an entry of two tokens the games and the tie-break; the
  \<open>match\<close> statement has no other case, so any other entry appends nothing.
\<close>

fun score_loop :: "string list list \<Rightarrow> int list \<times> int option list
                     \<Rightarrow> error + (int list \<times> int option list)" where
  "score_loop [] (sets, tiebreaks) = Inr (sets, tiebreaks)"
| "score_loop (scores # rest) (sets, tiebreaks) =
     (if length scores = 1 then
        (case py_int (scores ! 0) of
           Inl e \<Rightarrow> Inl e
         | Inr g \<Rightarrow> score_loop rest (sets @ [g], tiebreaks @ [None]))
      else if length scores = 2 then
        (case py_int (scores ! 0) of
           Inl e \<Rightarrow> Inl e
         | Inr g \<Rightarrow>
             (case py_int (scores ! 1) of
                Inl e \<Rightarrow> Inl e
              | Inr t \<Rightarrow> score_loop rest (sets @ [g], tiebreaks @ [Some t])))
      else score_loop rest (sets, tiebreaks))"

text \<open>
  Lines 202 to 222: the loop over the competitor blocks, with the index \<open>i\<close> of
  \<open>enumerate\<close>. The state is \<open>(players, player_sets, player_tbs, winner_idx)\<close>.
\<close>

type_synonym players_state =
  "PlayerRef list \<times> int list list \<times> int option list list \<times> int option"

fun player_loop :: "stats_item list \<Rightarrow> int \<Rightarrow> players_state \<Rightarrow> error + players_state" where
  "player_loop [] i st = Inr st"
| "player_loop (player_info # rest) i (players, player_sets, player_tbs, winner_idx) =
     (case py_index (name_hrefs player_info) 0 of
        Inl e \<Rightarrow> Inl e
      | Inr player_href \<Rightarrow>
     (case player_ref_of player_href of
        Inl e \<Rightarrow> Inl e
      | Inr p \<Rightarrow>
     (case score_loop (score_items player_info) ([], []) of
        Inl e \<Rightarrow> Inl e
      | Inr (sets, tiebreaks) \<Rightarrow>
          player_loop rest (i + 1)
            (players @ [p], player_sets @ [sets], player_tbs @ [tiebreaks],
             if 0 < winner_divs player_info then Some i else winner_idx))))"

definition parse_players :: "match_block \<Rightarrow> error + players_state" where
  "parse_players m = player_loop (stats_items m) 0 ([], [], [], None)"

text \<open>
  Lines 227 to 232: the loop over \<open>zip(player_sets[winner_idx],
  player_sets[1-winner_idx], player_tbs[winner_idx])\<close>; the state is
  \<open>(sets_played, winner_won_sets)\<close>. The Boolean \<open>wset >= lset or wtbs is not None\<close>
  is added as 1 or 0.
\<close>

fun set_loop :: "(int \<times> int \<times> int option) list \<Rightarrow> int \<times> int \<Rightarrow> int \<times> int" where
  "set_loop [] (sets_played, winner_won_sets) = (sets_played, winner_won_sets)"
| "set_loop ((wset, lset, wtbs) # rest) (sets_played, winner_won_sets) =
     set_loop rest
       (sets_played + 1,
        winner_won_sets + (if wset \<ge> lset \<or> wtbs \<noteq> None then 1 else 0))"

definition align_sets :: "int list list \<Rightarrow> int option list list \<Rightarrow> int \<Rightarrow> error + (int \<times> int)" where
  "align_sets player_sets player_tbs winner_idx =
     bind_r (py_index player_sets winner_idx) (\<lambda>wsets.
     bind_r (py_index player_sets (1 - winner_idx)) (\<lambda>lsets.
     bind_r (py_index player_tbs winner_idx) (\<lambda>wtbs.
     Inr (set_loop (zip wsets (zip lsets wtbs)) (0, 0)))))"

text \<open>
  Lines 237 to 256: \<open>xss[idx][k] if sets_played >= k + 1 else None\<close>. The list is
  indexed only when the condition holds. A games slot holds an integer, a tie-break
  slot holds what the list holds, which may be \<open>None\<close> itself.
\<close>

definition games_slot :: "int list list \<Rightarrow> int \<Rightarrow> int \<Rightarrow> int \<Rightarrow> error + int option" where
  "games_slot player_sets idx sets_played k =
     (if sets_played \<ge> k + 1
      then bind_r (py_index player_sets idx) (\<lambda>xs.
           bind_r (py_index xs k) (\<lambda>v. Inr (Some v)))
      else Inr None)"

definition tb_slot :: "int option list list \<Rightarrow> int \<Rightarrow> int \<Rightarrow> int \<Rightarrow> error + int option" where
  "tb_slot player_tbs idx sets_played k =
     (if sets_played \<ge> k + 1
      then bind_r (py_index player_tbs idx) (\<lambda>xs. py_index xs k)
      else Inr None)"

text \<open>
  Lines 234 to 256: the record. The keyword arguments are evaluated in the order
  they are written.
\<close>

definition assemble :: "MatchRef \<Rightarrow> pydate \<Rightarrow> int option \<Rightarrow> PlayerRef list \<Rightarrow> int list list
    \<Rightarrow> int option list list \<Rightarrow> int \<Rightarrow> int \<Rightarrow> int \<Rightarrow> error + MatchResult" where
  "assemble mref dt dur players player_sets player_tbs winner_idx sets_played winner_won_sets =
     bind_r (py_index players winner_idx) (\<lambda>v_winner.
     bind_r (py_index players (1 - winner_idx)) (\<lambda>v_loser.
     bind_r (games_slot player_sets winner_idx sets_played 0) (\<lambda>v_w1.
     bind_r (tb_slot player_tbs winner_idx sets_played 0) (\<lambda>v_w1_tb.
     bind_r (games_slot player_sets winner_idx sets_played 1) (\<lambda>v_w2.
     bind_r (tb_slot player_tbs winner_idx sets_played 1) (\<lambda>v_w2_tb.
     bind_r (games_slot player_sets winner_idx sets_played 2) (\<lambda>v_w3.
     bind_r (tb_slot player_tbs winner_idx sets_played 2) (\<lambda>v_w3_tb.
     bind_r (games_slot player_sets winner_idx sets_played 3) (\<lambda>v_w4.
     bind_r (tb_slot player_tbs winner_idx sets_played 3) (\<lambda>v_w4_tb.
     bind_r (games_slot player_sets winner_idx sets_played 4) (\<lambda>v_w5.
     bind_r (tb_slot player_tbs winner_idx sets_played 4) (\<lambda>v_w5_tb.
     bind_r (games_slot player_sets (1 - winner_idx) sets_played 0) (\<lambda>v_l1.
     bind_r (tb_slot player_tbs (1 - winner_idx) sets_played 0) (\<lambda>v_l1_tb.
     bind_r (games_slot player_sets (1 - winner_idx) sets_played 1) (\<lambda>v_l2.
     bind_r (tb_slot player_tbs (1 - winner_idx) sets_played 1) (\<lambda>v_l2_tb.
     bind_r (games_slot player_sets (1 - winner_idx) sets_played 2) (\<lambda>v_l3.
     bind_r (tb_slot player_tbs (1 - winner_idx) sets_played 2) (\<lambda>v_l3_tb.
     bind_r (games_slot player_sets (1 - winner_idx) sets_played 3) (\<lambda>v_l4.
     bind_r (tb_slot player_tbs (1 - winner_idx) sets_played 3) (\<lambda>v_l4_tb.
     bind_r (games_slot player_sets (1 - winner_idx) sets_played 4) (\<lambda>v_l5.
     bind_r (tb_slot player_tbs (1 - winner_idx) sets_played 4) (\<lambda>v_l5_tb.
     Inr \<lparr>match_ref = mref, date = dt, duration = dur,
            best_of = (if winner_won_sets = 2 then 3 else 5),
            winner = v_winner, loser = v_loser,
            w1 = v_w1,
            w1_tb = v_w1_tb,
            w2 = v_w2,
            w2_tb = v_w2_tb,
            w3 = v_w3,
            w3_tb = v_w3_tb,
            w4 = v_w4,
            w4_tb = v_w4_tb,
            w5 = v_w5,
            w5_tb = v_w5_tb,
            l1 = v_l1,
            l1_tb = v_l1_tb,
            l2 = v_l2,
            l2_tb = v_l2_tb,
            l3 = v_l3,
            l3_tb = v_l3_tb,
            l4 = v_l4,
            l4_tb = v_l4_tb,
            l5 = v_l5,
            l5_tb = v_l5_tb\<rparr>))))))))))))))))))))))"

text \<open>
  Lines 196 to 256: one match. \<open>Inr None\<close> is the \<open>continue\<close> of line 225: no record
  is appended and the loop goes on.
\<close>

definition match_step :: "MatchRef \<Rightarrow> pydate \<Rightarrow> match_block \<Rightarrow> error + MatchResult option" where
  "match_step mref dt m =
     bind_r (parse_duration (header_span2 m)) (\<lambda>dur.
     bind_r (parse_players m) (\<lambda>(players, player_sets, player_tbs, winner_idx).
       if length players \<noteq> 2 \<or> winner_idx = None then Inr None
       else (case winner_idx of
               None \<Rightarrow> Inr None
             | Some widx \<Rightarrow>
                 bind_r (align_sets player_sets player_tbs widx) (\<lambda>(sets_played, winner_won_sets).
                 bind_r (assemble mref dt dur players player_sets player_tbs widx
                           sets_played winner_won_sets) (\<lambda>r.
                 Inr (Some r))))))"

fun match_loop :: "match_block list \<Rightarrow> MatchRef \<Rightarrow> pydate \<Rightarrow> MatchResult list
                     \<Rightarrow> error + MatchResult list" where
  "match_loop [] mref dt entries = Inr entries"
| "match_loop (m # rest) mref dt entries =
     (case match_step mref dt m of
        Inl e \<Rightarrow> Inl e
      | Inr None \<Rightarrow> match_loop rest mref dt entries
      | Inr (Some r) \<Rightarrow> match_loop rest mref dt (entries @ [r]))"

text \<open>
  Lines 188 to 195: one day group. The first text of the heading is parsed as a date,
  the first Stats target gives the match id (its last path segment), then the matches
  of the day are processed. Both \<open>[0]\<close> raise IndexError on an empty result.
\<close>

definition day_step :: "TournamentRef \<Rightarrow> int \<Rightarrow> accordion_item \<Rightarrow> MatchResult list
                          \<Rightarrow> error + MatchResult list" where
  "day_step tournament yr tday entries =
     bind_r (py_index (day_h4 tday) 0) (\<lambda>date_text.
     bind_r (strptime (strip date_text)) (\<lambda>dt.
     bind_r (py_index (stats_hrefs tday) 0) (\<lambda>href.
     bind_r (py_index (split CHR ''/'' href) (- 1)) (\<lambda>mid.
     match_loop (matches tday)
       \<lparr>tournament_id = tournament_ref_id tournament, year = yr, match_id = mid\<rparr>
       dt entries))))"

fun day_loop :: "accordion_item list \<Rightarrow> TournamentRef \<Rightarrow> int \<Rightarrow> MatchResult list
                   \<Rightarrow> error + MatchResult list" where
  "day_loop [] tournament yr entries = Inr entries"
| "day_loop (tday # rest) tournament yr entries =
     (case day_step tournament yr tday entries of
        Inl e \<Rightarrow> Inl e
      | Inr entries' \<Rightarrow> day_loop rest tournament yr entries')"

text \<open>Lines 183 to 257: the first accordion of the page, day by day.\<close>

definition get_tournament_singles_results :: "doctree \<Rightarrow> TournamentRef \<Rightarrow> int
                                                \<Rightarrow> error + MatchResult list" where
  "get_tournament_singles_results doc tournament yr =
     bind_r (py_index (accordions doc) 0) (\<lambda>accordion.
     day_loop accordion tournament yr [])"

subsection \<open>Sample pages\<close>

text \<open>
  A match of two competitors, the first marked as the winner, with the scores of
  scenario B of the specification: 6 and 7 (tie-break 3) against 4 and 6.
\<close>

definition sample_ref :: MatchRef where
  "sample_ref = \<lparr>tournament_id = ''580'', year = 2024, match_id = ''ms001''\<rparr>"

definition sample_date :: pydate where
  "sample_date = \<lparr>d_year = 2024, d_month = 1, d_day = 15\<rparr>"

definition block_a :: stats_item where
  "block_a = \<lparr>name_hrefs = [''/en/players/a-b/ab12/overview''],
              score_items = [[''6''], [''7'', ''3'']], winner_divs = 1\<rparr>"

definition block_b :: stats_item where
  "block_b = \<lparr>name_hrefs = [''/en/players/c-d/cd34/overview''],
              score_items = [[''4''], [''6'']], winner_divs = 0\<rparr>"

definition player_a :: PlayerRef where
  "player_a = \<lparr>player_id = ''ab12'', player_slug = ''a-b''\<rparr>"

definition player_b :: PlayerRef where
  "player_b = \<lparr>player_id = ''cd34'', player_slug = ''c-d''\<rparr>"

definition match_ab :: match_block where
  "match_ab = \<lparr>header_span2 = [''01:45:10''], stats_items = [block_a, block_b]\<rparr>"

definition result_ab :: MatchResult where
  "result_ab =
     \<lparr>match_ref = sample_ref, date = sample_date, duration = Some 105, best_of = 3,
      winner = player_a, loser = player_b,
      w1 = Some 6, w1_tb = None, w2 = Some 7, w2_tb = Some 3, w3 = None, w3_tb = None,
      w4 = None, w4_tb = None, w5 = None, w5_tb = None,
      l1 = Some 4, l1_tb = None, l2 = Some 6, l2_tb = None, l3 = None, l3_tb = None,
      l4 = None, l4_tb = None, l5 = None, l5_tb = None\<rparr>"

text \<open>The second competitor carries the profile link of the first.\<close>

definition block_a_again :: stats_item where
  "block_a_again = \<lparr>name_hrefs = [''/en/players/a-b/ab12/overview''],
                    score_items = [[''4''], [''6'']], winner_divs = 0\<rparr>"

definition match_aa :: match_block where
  "match_aa = \<lparr>header_span2 = [''01:45:10''], stats_items = [block_a, block_a_again]\<rparr>"

text \<open>Six score entries for each competitor.\<close>

definition block_six_w :: stats_item where
  "block_six_w = \<lparr>name_hrefs = [''/en/players/a-b/ab12/overview''],
                  score_items = [[''6''], [''6''], [''6''], [''6''], [''6''], [''6'']],
                  winner_divs = 1\<rparr>"

definition block_six_l :: stats_item where
  "block_six_l = \<lparr>name_hrefs = [''/en/players/c-d/cd34/overview''],
                  score_items = [[''4''], [''4''], [''4''], [''4''], [''4''], [''4'']],
                  winner_divs = 0\<rparr>"

definition match_six :: match_block where
  "match_six = \<lparr>header_span2 = [], stats_items = [block_six_w, block_six_l]\<rparr>"

text \<open>The minutes of the duration are not a number.\<close>

definition match_bad_duration :: match_block where
  "match_bad_duration = \<lparr>header_span2 = [''1:xx:00''], stats_items = [block_a, block_b]\<rparr>"

text \<open>Day groups: a well-formed one, one with a date in another format, one without a Stats link.\<close>

definition sample_tournament :: TournamentRef where
  "sample_tournament = \<lparr>tournament_ref_id = ''580'', tournament_ref_slug = ''australian-open''\<rparr>"

definition stats_link :: cta_link where
  "stats_link = \<lparr>link_texts = [''Stats''],
                 link_href = Some ''/en/scores/stats-centre/archive/2024/580/ms001''\<rparr>"

definition h2h_link :: cta_link where
  "h2h_link = \<lparr>link_texts = [''H2H''], link_href = Some ''/en/players/atp-head-2-head/x''\<rparr>"

definition day_ok :: accordion_item where
  "day_ok = \<lparr>day_h4 = ['' Mon, 15 January, 2024 ''], cta_links = [h2h_link, stats_link],
             matches = [match_ab]\<rparr>"

definition day_bad_date :: accordion_item where
  "day_bad_date = \<lparr>day_h4 = [''Tuesday 16 January 2024''], cta_links = [stats_link],
                   matches = [match_ab]\<rparr>"

definition day_no_stats :: accordion_item where
  "day_no_stats = \<lparr>day_h4 = [''Mon, 15 January, 2024''], cta_links = [h2h_link],
                   matches = [match_ab]\<rparr>"

text \<open>Both competitor blocks carry the winner marker; no block carries it.\<close>

definition block_b_marked :: stats_item where
  "block_b_marked = \<lparr>name_hrefs = [''/en/players/c-d/cd34/overview''],
                     score_items = [[''4''], [''6'']], winner_divs = 1\<rparr>"

definition match_both_marked :: match_block where
  "match_both_marked = \<lparr>header_span2 = [''01:45:10''], stats_items = [block_a, block_b_marked]\<rparr>"

definition result_both_marked :: MatchResult where
  "result_both_marked =
     \<lparr>match_ref = sample_ref, date = sample_date, duration = Some 105, best_of = 5,
      winner = player_b, loser = player_a,
      w1 = Some 4, w1_tb = None, w2 = Some 6, w2_tb = None, w3 = None, w3_tb = None,
      w4 = None, w4_tb = None, w5 = None, w5_tb = None,
      l1 = Some 6, l1_tb = None, l2 = Some 7, l2_tb = Some 3, l3 = None, l3_tb = None,
      l4 = None, l4_tb = None, l5 = None, l5_tb = None\<rparr>"

definition block_unmarked :: stats_item where
  "block_unmarked = \<lparr>name_hrefs = [''/en/players/a-b/ab12/overview''],
                     score_items = [[''6''], [''7'', ''3'']], winner_divs = 0\<rparr>"

definition match_no_winner :: match_block where
  "match_no_winner = \<lparr>header_span2 = [], stats_items = [block_unmarked, block_b]\<rparr>"

text \<open>The winner's second score entry has three tokens.\<close>

definition block_three_tokens :: stats_item where
  "block_three_tokens = \<lparr>name_hrefs = [''/en/players/a-b/ab12/overview''],
                         score_items = [[''6''], [''1'', ''2'', ''3''], [''7'']],
                         winner_divs = 1\<rparr>"

definition block_three_sets :: stats_item where
  "block_three_sets = \<lparr>name_hrefs = [''/en/players/c-d/cd34/overview''],
                       score_items = [[''4''], [''3''], [''5'']], winner_divs = 0\<rparr>"

definition match_three_tokens :: match_block where
  "match_three_tokens = \<lparr>header_span2 = [], stats_items = [block_three_tokens, block_three_sets]\<rparr>"

definition result_three_tokens :: MatchResult where
  "result_three_tokens =
     \<lparr>match_ref = sample_ref, date = sample_date, duration = None, best_of = 3,
      winner = player_a, loser = player_b,
      w1 = Some 6, w1_tb = None, w2 = Some 7, w2_tb = None, w3 = None, w3_tb = None,
      w4 = None, w4_tb = None, w5 = None, w5_tb = None,
      l1 = Some 4, l1_tb = None, l2 = Some 3, l2_tb = None, l3 = None, l3_tb = None,
      l4 = None, l4_tb = None, l5 = None, l5_tb = None\<rparr>"

text \<open>The sample match without a duration text.\<close>

definition match_no_duration :: match_block where
  "match_no_duration = \<lparr>header_span2 = [], stats_items = [block_a, block_b]\<rparr>"

section \<open>Properties\<close>

subsection \<open>Auxiliary facts\<close>

lemma bind_r_Inl [simp]: "bind_r (Inl e) f = Inl e"
  by (simp add: bind_r_def)

lemma bind_r_Inr [simp]: "bind_r (Inr x) f = f x"
  by (simp add: bind_r_def)

lemma bind_r_eq_Inr: "(bind_r m f = Inr y) = (\<exists>x. m = Inr x \<and> f x = Inr y)"
  by (cases m) simp_all

lemma set_loop_eq:
  "set_loop xs (sp, won) =
     (sp + int (length xs),
      won + int (length (filter (\<lambda>(wset, lset, wtbs). wset \<ge> lset \<or> wtbs \<noteq> None) xs)))"
  by (induction xs arbitrary: sp won) (auto split: if_splits)

lemma assemble_fields:
  assumes "assemble mref dt dur players player_sets player_tbs widx sp won = Inr r"
  shows "best_of r = (if won = 2 then 3 else 5)"
    and "py_index players widx = Inr (winner r)"
    and "py_index players (1 - widx) = Inr (loser r)"
    and "games_slot player_sets widx sp 0 = Inr (w1 r)"
    and "games_slot player_sets widx sp 1 = Inr (w2 r)"
    and "games_slot player_sets widx sp 2 = Inr (w3 r)"
    and "games_slot player_sets widx sp 3 = Inr (w4 r)"
    and "games_slot player_sets widx sp 4 = Inr (w5 r)"
    and "games_slot player_sets (1 - widx) sp 0 = Inr (l1 r)"
    and "games_slot player_sets (1 - widx) sp 1 = Inr (l2 r)"
    and "games_slot player_sets (1 - widx) sp 2 = Inr (l3 r)"
    and "games_slot player_sets (1 - widx) sp 3 = Inr (l4 r)"
    and "games_slot player_sets (1 - widx) sp 4 = Inr (l5 r)"
    and "tb_slot player_tbs widx sp 0 = Inr (w1_tb r)"
    and "tb_slot player_tbs widx sp 1 = Inr (w2_tb r)"
    and "tb_slot player_tbs widx sp 2 = Inr (w3_tb r)"
    and "tb_slot player_tbs widx sp 3 = Inr (w4_tb r)"
    and "tb_slot player_tbs widx sp 4 = Inr (w5_tb r)"
    and "tb_slot player_tbs (1 - widx) sp 0 = Inr (l1_tb r)"
    and "tb_slot player_tbs (1 - widx) sp 1 = Inr (l2_tb r)"
    and "tb_slot player_tbs (1 - widx) sp 2 = Inr (l3_tb r)"
    and "tb_slot player_tbs (1 - widx) sp 3 = Inr (l4_tb r)"
    and "tb_slot player_tbs (1 - widx) sp 4 = Inr (l5_tb r)"
    and "duration r = dur" and "match_ref r = mref" and "date r = dt"
  using assms unfolding assemble_def bind_r_eq_Inr by auto

lemma match_step_SomeD:
  assumes "match_step mref dt m = Inr (Some r)"
  shows "\<exists>dur players psets ptbs widx sp won.
           parse_duration (header_span2 m) = Inr dur \<and>
           parse_players m = Inr (players, psets, ptbs, Some widx) \<and>
           length players = 2 \<and>
           align_sets psets ptbs widx = Inr (sp, won) \<and>
           assemble mref dt dur players psets ptbs widx sp won = Inr r"
  using assms
  by (auto simp: match_step_def bind_r_eq_Inr split: if_splits option.splits prod.splits)

lemma games_slot_None:
  "games_slot xss idx sp k = Inr v \<Longrightarrow> (v = None) = (sp < k + 1)"
  by (auto simp: games_slot_def bind_r_eq_Inr split: if_splits)

lemma tb_slot_None:
  "tb_slot xss idx sp k = Inr v \<Longrightarrow> sp < k + 1 \<Longrightarrow> v = None"
  by (auto simp: tb_slot_def bind_r_eq_Inr split: if_splits)

lemma match_ab_result: "match_step sample_ref sample_date match_ab = Inr (Some result_ab)"
  by code_simp

subsection \<open>Set alignment and format inference\<close>

text \<open>
  C1: once the winner's games, the loser's games and the winner's tie-breaks are
  selected, the alignment loop returns the number of aligned triples as
  \<open>sets_played\<close> and, as \<open>winner_won_sets\<close>, the number of aligned triples in which the
  winner's games are at least the loser's or the winner's tie-break is present. For
  the winner's sets (6, None), (7, 3) against (4, None), (6, None) both numbers are 2.
\<close>

theorem victor_sets_won_count:
  assumes "py_index player_sets winner_idx = Inr wsets"
    and "py_index player_sets (1 - winner_idx) = Inr lsets"
    and "py_index player_tbs winner_idx = Inr wtbs"
  shows "align_sets player_sets player_tbs winner_idx =
           Inr (int (length (zip wsets (zip lsets wtbs))),
                int (length (filter (\<lambda>(wset, lset, wtb). wset \<ge> lset \<or> wtb \<noteq> None)
                                    (zip wsets (zip lsets wtbs)))))"
  using assms by (simp add: align_sets_def set_loop_eq)

theorem victor_sets_won_count_witness:
  "py_index [[6, 7], [4, 6 :: int]] 0 = Inr [6, 7] \<and>
   py_index [[6, 7], [4, 6 :: int]] (1 - 0) = Inr [4, 6] \<and>
   py_index [[None, Some 3], [None, None :: int option]] 0 = Inr [None, Some 3] \<and>
   align_sets [[6, 7], [4, 6]] [[None, Some 3], [None, None]] 0 = Inr (2, 2)"
proof -
  have a: "py_index [[6, 7], [4, 6 :: int]] 0 = Inr [6, 7]"
    and b: "py_index [[6, 7], [4, 6 :: int]] (1 - 0) = Inr [4, 6]"
    and c: "py_index [[None, Some 3], [None, None :: int option]] 0 = Inr [None, Some 3]"
    by (simp_all add: py_index_def)
  from victor_sets_won_count [OF a b c] a b c show ?thesis by simp
qed

text \<open>
  C2: every record a match emits has \<open>best_of = 3\<close> when the winner's counted sets are
  exactly 2 and \<open>best_of = 5\<close> otherwise, so \<open>best_of\<close> is 3 or 5.
\<close>

theorem best_of_rule:
  assumes "match_step mref dt m = Inr (Some r)"
  shows "\<exists>players psets ptbs widx sp won.
           parse_players m = Inr (players, psets, ptbs, Some widx) \<and>
           align_sets psets ptbs widx = Inr (sp, won) \<and>
           best_of r = (if won = 2 then 3 else 5) \<and>
           (best_of r = 3 \<or> best_of r = 5)"
proof -
  from match_step_SomeD [OF assms] obtain dur players psets ptbs widx sp won where
    p: "parse_players m = Inr (players, psets, ptbs, Some widx)" and
    a: "align_sets psets ptbs widx = Inr (sp, won)" and
    r: "assemble mref dt dur players psets ptbs widx sp won = Inr r"
    by blast
  from assemble_fields(1) [OF r] have "best_of r = (if won = 2 then 3 else 5)" .
  with p a show ?thesis by auto
qed


theorem best_of_rule_witness:
  "match_step sample_ref sample_date match_ab = Inr (Some result_ab) \<and>
   (\<exists>players psets ptbs widx sp won.
      parse_players match_ab = Inr (players, psets, ptbs, Some widx) \<and>
      align_sets psets ptbs widx = Inr (sp, won) \<and>
      best_of result_ab = (if won = 2 then 3 else 5) \<and>
      (best_of result_ab = 3 \<or> best_of result_ab = 5))"
  using best_of_rule [OF match_ab_result] match_ab_result by simp

subsection \<open>Matches that emit a record\<close>

lemma py_index_pair [simp]:
  "py_index [a, b] 0 = Inr a" "py_index [a, b] 1 = Inr b"
  by (simp_all add: py_index_def)

lemma score_loop_lengths:
  "score_loop items (sets, tbs) = Inr (sets', tbs') \<Longrightarrow> length sets = length tbs
     \<Longrightarrow> length sets' = length tbs'"
  by (induction items arbitrary: sets tbs) (auto split: if_splits sum.splits)

lemma player_loop_length:
  "player_loop items i (players, psets, ptbs, widx) = Inr (players', psets', ptbs', widx')
     \<Longrightarrow> length players' = length players + length items"
  by (induction items arbitrary: i players psets ptbs widx)
     (auto split: sum.splits prod.splits)

lemma parse_players_length:
  "parse_players m = Inr (players, psets, ptbs, widx) \<Longrightarrow> length players = length (stats_items m)"
  using player_loop_length [of "stats_items m" 0 "[]" "[]" "[]" None players psets ptbs widx]
  by (simp add: parse_players_def)

lemma parse_players_two:
  assumes "stats_items m = [b0, b1]"
    and "parse_players m = Inr (players, psets, ptbs, widx)"
  shows "\<exists>h0 h1 p0 p1 s0 t0 s1 t1.
           py_index (name_hrefs b0) 0 = Inr h0 \<and> player_ref_of h0 = Inr p0 \<and>
           score_loop (score_items b0) ([], []) = Inr (s0, t0) \<and>
           py_index (name_hrefs b1) 0 = Inr h1 \<and> player_ref_of h1 = Inr p1 \<and>
           score_loop (score_items b1) ([], []) = Inr (s1, t1) \<and>
           players = [p0, p1] \<and> psets = [s0, s1] \<and> ptbs = [t0, t1] \<and>
           widx = (if 0 < winner_divs b1 then Some 1
                   else if 0 < winner_divs b0 then Some 0 else None)"
  using assms by (auto simp: parse_players_def split: sum.splits prod.splits if_splits)

lemma match_step_two:
  assumes "match_step mref dt m = Inr (Some r)"
  shows "\<exists>dur b0 b1 h0 h1 p0 p1 s0 t0 s1 t1 widx sp won.
           parse_duration (header_span2 m) = Inr dur \<and>
           stats_items m = [b0, b1] \<and>
           py_index (name_hrefs b0) 0 = Inr h0 \<and> player_ref_of h0 = Inr p0 \<and>
           score_loop (score_items b0) ([], []) = Inr (s0, t0) \<and>
           py_index (name_hrefs b1) 0 = Inr h1 \<and> player_ref_of h1 = Inr p1 \<and>
           score_loop (score_items b1) ([], []) = Inr (s1, t1) \<and>
           (widx = 0 \<or> widx = 1) \<and>
           Some widx = (if 0 < winner_divs b1 then Some 1
                        else if 0 < winner_divs b0 then Some 0 else None) \<and>
           parse_players m = Inr ([p0, p1], [s0, s1], [t0, t1], Some widx) \<and>
           align_sets [s0, s1] [t0, t1] widx = Inr (sp, won) \<and>
           assemble mref dt dur [p0, p1] [s0, s1] [t0, t1] widx sp won = Inr r"
proof -
  from match_step_SomeD [OF assms] obtain dur players psets ptbs widx sp won where
    d: "parse_duration (header_span2 m) = Inr dur" and
    p: "parse_players m = Inr (players, psets, ptbs, Some widx)" and
    l: "length players = 2" and
    a: "align_sets psets ptbs widx = Inr (sp, won)" and
    r: "assemble mref dt dur players psets ptbs widx sp won = Inr r"
    by blast
  from parse_players_length [OF p] l have "length (stats_items m) = 2" by simp
  then obtain b0 b1 where bs: "stats_items m = [b0, b1]"
    by (auto simp: length_Suc_conv numeral_2_eq_2)
  from parse_players_two [OF bs p] obtain h0 h1 p0 p1 s0 t0 s1 t1 where
    f: "py_index (name_hrefs b0) 0 = Inr h0" "player_ref_of h0 = Inr p0"
       "score_loop (score_items b0) ([], []) = Inr (s0, t0)"
       "py_index (name_hrefs b1) 0 = Inr h1" "player_ref_of h1 = Inr p1"
       "score_loop (score_items b1) ([], []) = Inr (s1, t1)"
       "players = [p0, p1]" "psets = [s0, s1]" "ptbs = [t0, t1]" and
    w: "Some widx = (if 0 < winner_divs b1 then Some 1
                     else if 0 < winner_divs b0 then Some 0 else None)"
    by blast
  from w have "widx = 0 \<or> widx = 1" by (auto split: if_splits)
  with d bs f w p a r show ?thesis by blast
qed

text \<open>
  C3: in every record a match emits, for each slot 1 to 5 the winner's games are absent
  exactly when the loser's games are absent, exactly when the slot number exceeds
  \<open>sets_played\<close>; the tie-breaks of such a slot are absent on both sides too.
\<close>

theorem slots_absent_iff:
  assumes "match_step mref dt m = Inr (Some r)"
  shows "\<exists>players psets ptbs widx sp won.
           parse_players m = Inr (players, psets, ptbs, Some widx) \<and>
           align_sets psets ptbs widx = Inr (sp, won) \<and>
           (w1 r = None) = (l1 r = None) \<and> (w1 r = None) = (1 > sp) \<and>
           (w2 r = None) = (l2 r = None) \<and> (w2 r = None) = (2 > sp) \<and>
           (w3 r = None) = (l3 r = None) \<and> (w3 r = None) = (3 > sp) \<and>
           (w4 r = None) = (l4 r = None) \<and> (w4 r = None) = (4 > sp) \<and>
           (w5 r = None) = (l5 r = None) \<and> (w5 r = None) = (5 > sp) \<and>
           (1 > sp \<longrightarrow> w1_tb r = None \<and> l1_tb r = None) \<and>
           (2 > sp \<longrightarrow> w2_tb r = None \<and> l2_tb r = None) \<and>
           (3 > sp \<longrightarrow> w3_tb r = None \<and> l3_tb r = None) \<and>
           (4 > sp \<longrightarrow> w4_tb r = None \<and> l4_tb r = None) \<and>
           (5 > sp \<longrightarrow> w5_tb r = None \<and> l5_tb r = None)"
proof -
  from match_step_SomeD [OF assms] obtain dur players psets ptbs widx sp won where
    p: "parse_players m = Inr (players, psets, ptbs, Some widx)" and
    a: "align_sets psets ptbs widx = Inr (sp, won)" and
    r: "assemble mref dt dur players psets ptbs widx sp won = Inr r"
    by blast
  note f = assemble_fields [OF r]
  have g: "(w1 r = None) = (1 > sp)" "(w2 r = None) = (2 > sp)" "(w3 r = None) = (3 > sp)"
    "(w4 r = None) = (4 > sp)" "(w5 r = None) = (5 > sp)"
    "(l1 r = None) = (1 > sp)" "(l2 r = None) = (2 > sp)" "(l3 r = None) = (3 > sp)"
    "(l4 r = None) = (4 > sp)" "(l5 r = None) = (5 > sp)"
    using f(4-13) [THEN games_slot_None] by simp_all
  have t: "1 > sp \<longrightarrow> w1_tb r = None \<and> l1_tb r = None"
    "2 > sp \<longrightarrow> w2_tb r = None \<and> l2_tb r = None"
    "3 > sp \<longrightarrow> w3_tb r = None \<and> l3_tb r = None"
    "4 > sp \<longrightarrow> w4_tb r = None \<and> l4_tb r = None"
    "5 > sp \<longrightarrow> w5_tb r = None \<and> l5_tb r = None"
    using f(14-23) [THEN tb_slot_None] by simp_all
  show ?thesis
    apply (rule exI [of _ players], rule exI [of _ psets], rule exI [of _ ptbs])
    apply (rule exI [of _ widx], rule exI [of _ sp], rule exI [of _ won])
    using p a g t by simp
qed


theorem slots_absent_iff_witness:
  "match_step sample_ref sample_date match_ab = Inr (Some result_ab) \<and>
   (\<exists>players psets ptbs widx sp won.
      parse_players match_ab = Inr (players, psets, ptbs, Some widx) \<and>
      align_sets psets ptbs widx = Inr (sp, won) \<and>
      (w1 result_ab = None) = (l1 result_ab = None) \<and> (w1 result_ab = None) = (1 > sp) \<and>
      (w2 result_ab = None) = (l2 result_ab = None) \<and> (w2 result_ab = None) = (2 > sp) \<and>
      (w3 result_ab = None) = (l3 result_ab = None) \<and> (w3 result_ab = None) = (3 > sp) \<and>
      (w4 result_ab = None) = (l4 result_ab = None) \<and> (w4 result_ab = None) = (4 > sp) \<and>
      (w5 result_ab = None) = (l5 result_ab = None) \<and> (w5 result_ab = None) = (5 > sp) \<and>
      (1 > sp \<longrightarrow> w1_tb result_ab = None \<and> l1_tb result_ab = None) \<and>
      (2 > sp \<longrightarrow> w2_tb result_ab = None \<and> l2_tb result_ab = None) \<and>
      (3 > sp \<longrightarrow> w3_tb result_ab = None \<and> l3_tb result_ab = None) \<and>
      (4 > sp \<longrightarrow> w4_tb result_ab = None \<and> l4_tb result_ab = None) \<and>
      (5 > sp \<longrightarrow> w5_tb result_ab = None \<and> l5_tb result_ab = None))"
  by (rule conjI [OF match_ab_result slots_absent_iff [OF match_ab_result]])

text \<open>
  C4, as the code has it: a record is emitted only for a match of exactly two
  competitor blocks; its winner and loser are the player references of the two blocks,
  the second block's being the winner when that block is marked and the first block's
  otherwise. They differ exactly when the two profile links give different references:
  the code does not compare them.
\<close>

theorem winner_loser_positions:
  assumes "match_step mref dt m = Inr (Some r)"
  shows "\<exists>b0 b1 h0 h1 p0 p1.
           stats_items m = [b0, b1] \<and>
           py_index (name_hrefs b0) 0 = Inr h0 \<and> player_ref_of h0 = Inr p0 \<and>
           py_index (name_hrefs b1) 0 = Inr h1 \<and> player_ref_of h1 = Inr p1 \<and>
           (if 0 < winner_divs b1 then winner r = p1 \<and> loser r = p0
            else winner r = p0 \<and> loser r = p1) \<and>
           (winner r \<noteq> loser r) = (p0 \<noteq> p1)"
proof -
  from match_step_two [OF assms] obtain dur b0 b1 h0 h1 p0 p1 s0 t0 s1 t1 widx sp won where
    bs: "stats_items m = [b0, b1]" and
    f: "py_index (name_hrefs b0) 0 = Inr h0" "player_ref_of h0 = Inr p0"
       "py_index (name_hrefs b1) 0 = Inr h1" "player_ref_of h1 = Inr p1" and
    w: "Some widx = (if 0 < winner_divs b1 then Some 1
                     else if 0 < winner_divs b0 then Some 0 else None)" and
    r: "assemble mref dt dur [p0, p1] [s0, s1] [t0, t1] widx sp won = Inr r"
    by blast
  note a = assemble_fields(2,3) [OF r]
  have "if 0 < winner_divs b1 then winner r = p1 \<and> loser r = p0
        else winner r = p0 \<and> loser r = p1"
    using w a by (auto split: if_splits)
  then have "(if 0 < winner_divs b1 then winner r = p1 \<and> loser r = p0
        else winner r = p0 \<and> loser r = p1) \<and> (winner r \<noteq> loser r) = (p0 \<noteq> p1)"
    by (auto split: if_splits)
  with bs f show ?thesis by blast
qed


theorem winner_loser_positions_witness:
  "match_step sample_ref sample_date match_ab = Inr (Some result_ab) \<and>
   (\<exists>b0 b1 h0 h1 p0 p1.
      stats_items match_ab = [b0, b1] \<and>
      py_index (name_hrefs b0) 0 = Inr h0 \<and> player_ref_of h0 = Inr p0 \<and>
      py_index (name_hrefs b1) 0 = Inr h1 \<and> player_ref_of h1 = Inr p1 \<and>
      (if 0 < winner_divs b1 then winner result_ab = p1 \<and> loser result_ab = p0
       else winner result_ab = p0 \<and> loser result_ab = p1) \<and>
      (winner result_ab \<noteq> loser result_ab) = (p0 \<noteq> p1))"
  by (rule conjI [OF match_ab_result winner_loser_positions [OF match_ab_result]])

text \<open>
  The claim as stated fails: two competitor blocks with the same profile link give a
  record whose winner and loser are the same player reference.
\<close>

theorem winner_equals_loser_counterexample:
  "match_step sample_ref sample_date match_aa =
     Inr (Some (result_ab\<lparr>loser := player_a\<rparr>)) \<and>
   winner (result_ab\<lparr>loser := player_a\<rparr>) = loser (result_ab\<lparr>loser := player_a\<rparr>)"
  by code_simp

lemma zip3_take:
  "length (zip a (zip b c)) \<le> n
     \<Longrightarrow> zip (take n a) (zip (take n b) (take n c)) = zip a (zip b c)"
  by (simp add: take_zip [symmetric])

text \<open>
  C5, as the code has it: for every match that emits a record, \<open>sets_played\<close> is the
  shorter of the lengths of the winner's and the loser's set sequences, the entries
  past that length have no effect on the alignment, and \<open>sets_played\<close> is at least 0;
  it is at most 5 exactly when one of the two sequences has at most five entries.
\<close>

theorem sets_played_aligned_length:
  assumes "match_step mref dt m = Inr (Some r)"
  shows "\<exists>players psets ptbs widx wsets lsets sp won.
           parse_players m = Inr (players, psets, ptbs, Some widx) \<and>
           py_index psets widx = Inr wsets \<and>
           py_index psets (1 - widx) = Inr lsets \<and>
           align_sets psets ptbs widx = Inr (sp, won) \<and>
           sp = int (min (length wsets) (length lsets)) \<and> 0 \<le> sp \<and>
           (sp \<le> 5) = (length wsets \<le> 5 \<or> length lsets \<le> 5) \<and>
           align_sets (map (take (nat sp)) psets) (map (take (nat sp)) ptbs) widx
             = Inr (sp, won)"
proof -
  from match_step_two [OF assms] obtain dur b0 b1 h0 h1 p0 p1 s0 t0 s1 t1 widx sp won where
    bs: "stats_items m = [b0, b1]" and
    s: "score_loop (score_items b0) ([], []) = Inr (s0, t0)"
       "score_loop (score_items b1) ([], []) = Inr (s1, t1)" and
    w: "widx = 0 \<or> widx = 1" and
    p: "parse_players m = Inr ([p0, p1], [s0, s1], [t0, t1], Some widx)" and
    a: "align_sets [s0, s1] [t0, t1] widx = Inr (sp, won)"
    by blast
  from s have l: "length s0 = length t0" "length s1 = length t1"
    by (auto dest: score_loop_lengths)
  from w show ?thesis
  proof
    assume z: "widx = 0"
    have i: "py_index [s0, s1] widx = Inr s0" "py_index [s0, s1] (1 - widx) = Inr s1"
      using z by simp_all
    from a z l have sp: "sp = int (min (length s0) (length s1))"
      by (auto simp: align_sets_def set_loop_eq)
    have "zip (take (nat sp) s0) (zip (take (nat sp) s1) (take (nat sp) t0))
            = zip s0 (zip s1 t0)"
      using sp l by (intro zip3_take) simp
    with a z
    have t: "align_sets (map (take (nat sp)) [s0, s1]) (map (take (nat sp)) [t0, t1]) widx
               = Inr (sp, won)"
      by (simp add: align_sets_def)
    from sp have b: "0 \<le> sp" "(sp \<le> 5) = (length s0 \<le> 5 \<or> length s1 \<le> 5)"
      by auto
    from p i a sp b t show ?thesis by blast
  next
    assume z: "widx = 1"
    have i: "py_index [s0, s1] widx = Inr s1" "py_index [s0, s1] (1 - widx) = Inr s0"
      using z by simp_all
    from a z l have sp: "sp = int (min (length s1) (length s0))"
      by (auto simp: align_sets_def set_loop_eq)
    have "zip (take (nat sp) s1) (zip (take (nat sp) s0) (take (nat sp) t1))
            = zip s1 (zip s0 t1)"
      using sp l by (intro zip3_take) simp
    with a z
    have t: "align_sets (map (take (nat sp)) [s0, s1]) (map (take (nat sp)) [t0, t1]) widx
               = Inr (sp, won)"
      by (simp add: align_sets_def)
    from sp have b: "0 \<le> sp" "(sp \<le> 5) = (length s1 \<le> 5 \<or> length s0 \<le> 5)"
      by auto
    from p i a sp b t show ?thesis by blast
  qed
qed

theorem sets_played_aligned_length_witness:
  "match_step sample_ref sample_date match_ab = Inr (Some result_ab) \<and>
   (\<exists>players psets ptbs widx wsets lsets sp won.
      parse_players match_ab = Inr (players, psets, ptbs, Some widx) \<and>
      py_index psets widx = Inr wsets \<and>
      py_index psets (1 - widx) = Inr lsets \<and>
      align_sets psets ptbs widx = Inr (sp, won) \<and>
      sp = int (min (length wsets) (length lsets)) \<and> 0 \<le> sp \<and>
      (sp \<le> 5) = (length wsets \<le> 5 \<or> length lsets \<le> 5) \<and>
      align_sets (map (take (nat sp)) psets) (map (take (nat sp)) ptbs) widx
        = Inr (sp, won))"
  by (rule conjI [OF match_ab_result sets_played_aligned_length [OF match_ab_result]])

text \<open>
  The claim as stated fails: with six score entries for each competitor the aligned
  length is 6.
\<close>

theorem six_sets_played_counterexample:
  "parse_players match_six =
     Inr ([player_a, player_b], [[6, 6, 6, 6, 6, 6], [4, 4, 4, 4, 4, 4]],
          [[None, None, None, None, None, None], [None, None, None, None, None, None]],
          Some 0) \<and>
   align_sets [[6, 6, 6, 6, 6, 6], [4, 4, 4, 4, 4, 4]]
     [[None, None, None, None, None, None], [None, None, None, None, None, None]] 0
     = Inr (6, 6) \<and>
   \<not> (6 :: int) \<le> 5"
  by code_simp

subsection \<open>The duration\<close>

lemma int_unsigned_error: "int_unsigned u = Inl e \<Longrightarrow> e = ValueError"
  by (auto simp: int_unsigned_def split: list.splits if_splits option.splits)

lemma py_int_error: "py_int s = Inl e \<Longrightarrow> e = ValueError"
  by (auto simp: py_int_def split: list.splits if_splits sum.splits dest: int_unsigned_error)

lemma py_int_cases: "py_int s = Inl ValueError \<or> (\<exists>v. py_int s = Inr v)"
  by (cases "py_int s") (auto dest: py_int_error)

lemma strptime_error: "strptime s = Inl e \<Longrightarrow> e = ValueError"
  by (auto simp: strptime_def split: option.splits prod.splits if_splits)

lemma parse_duration_malformed:
  assumes "\<not> (\<exists>h mi s H M S. split CHR '':'' (strip u) = [h, mi, s] \<and>
                py_int h = Inr H \<and> py_int mi = Inr M \<and> py_int s = Inr S)"
  shows "parse_duration [u] = Inl ValueError"
proof (cases "length (split CHR '':'' (strip u)) = 3")
  case False
  then show ?thesis by (simp add: parse_duration_def)
next
  case True
  then obtain h mi s where p: "split CHR '':'' (strip u) = [h, mi, s]"
    by (auto simp: length_Suc_conv numeral_3_eq_3)
  with assms have "\<not> (\<exists>H M S. py_int h = Inr H \<and> py_int mi = Inr M \<and> py_int s = Inr S)"
    by simp
  with py_int_cases [of h] py_int_cases [of mi] py_int_cases [of s] p
  show ?thesis by (auto simp: parse_duration_def)
qed

lemma split_xx: "split CHR '':'' (strip ''1:xx:00'') = [''1'', ''xx'', ''00'']"
  by code_simp

lemma py_int_xx: "py_int ''xx'' = Inl ValueError"
  by code_simp

lemma split_ok: "split CHR '':'' (strip ''01:45:10'') = [''01'', ''45'', ''10''] \<and>
      py_int ''01'' = Inr 1 \<and> py_int ''45'' = Inr 45 \<and> py_int ''10'' = Inr 10"
  by code_simp

lemma match_step_duration:
  assumes "match_step mref dt m = Inr (Some r)"
  shows "parse_duration (header_span2 m) = Inr (duration r)"
proof -
  from match_step_SomeD [OF assms] obtain dur players psets ptbs widx sp won where
    d: "parse_duration (header_span2 m) = Inr dur" and
    r: "assemble mref dt dur players psets ptbs widx sp won = Inr r"
    by blast
  from assemble_fields(24) [OF r] d show ?thesis by simp
qed

lemma match_no_duration_result:
  "match_step sample_ref sample_date match_no_duration = Inr (Some (result_ab\<lparr>duration := None\<rparr>)) \<and>
   length (header_span2 match_no_duration) \<noteq> 1"
  by code_simp

lemma match_ab_header: "header_span2 match_ab = [''01:45:10'']"
  by code_simp

text \<open>
  C7, as the code has it: when the header gives exactly one duration text and that
  text, stripped, splits at its colons into three parts that \<open>int\<close> accepts, the
  duration is hours times 60 plus minutes; when the header gives no duration text, or
  more than one, the duration is absent (\<open>None\<close>, not zero); when the single text is
  malformed, ValueError is raised and the match is abandoned with it. The duration
  field of every record a match emits is the value so computed from the header of
  that match.
\<close>

theorem duration_field:
  "(split CHR '':'' (strip t) = [h, mi, s] \<and>
      py_int h = Inr H \<and> py_int mi = Inr M \<and> py_int s = Inr S
      \<longrightarrow> parse_duration [t] = Inr (Some (H * 60 + M))) \<and>
   (length ts \<noteq> 1 \<longrightarrow> parse_duration ts = Inr None) \<and>
   (\<not> (\<exists>h mi s H M S. split CHR '':'' (strip u) = [h, mi, s] \<and>
          py_int h = Inr H \<and> py_int mi = Inr M \<and> py_int s = Inr S)
      \<longrightarrow> parse_duration [u] = Inl ValueError \<and>
          match_step mref dt \<lparr>header_span2 = [u], stats_items = bs\<rparr> = Inl ValueError) \<and>
   (match_step mref dt m = Inr (Some r)
      \<longrightarrow> parse_duration (header_span2 m) = Inr (duration r)) \<and>
   (match_step mref dt m = Inr (Some r) \<and> header_span2 m = [t] \<and>
    split CHR '':'' (strip t) = [h, mi, s] \<and>
    py_int h = Inr H \<and> py_int mi = Inr M \<and> py_int s = Inr S
      \<longrightarrow> duration r = Some (H * 60 + M)) \<and>
   (match_step mref dt m = Inr (Some r) \<and> length (header_span2 m) \<noteq> 1
      \<longrightarrow> duration r = None)"
proof (intro conjI impI)
  assume "split CHR '':'' (strip t) = [h, mi, s] \<and>
      py_int h = Inr H \<and> py_int mi = Inr M \<and> py_int s = Inr S"
  then show "parse_duration [t] = Inr (Some (H * 60 + M))"
    by (simp add: parse_duration_def)
next
  assume "length ts \<noteq> 1"
  then show "parse_duration ts = Inr None" by (simp add: parse_duration_def)
next
  assume a: "\<not> (\<exists>h mi s H M S. split CHR '':'' (strip u) = [h, mi, s] \<and>
          py_int h = Inr H \<and> py_int mi = Inr M \<and> py_int s = Inr S)"
  from parse_duration_malformed [OF a] show "parse_duration [u] = Inl ValueError" .
  then show "match_step mref dt \<lparr>header_span2 = [u], stats_items = bs\<rparr> = Inl ValueError"
    by (simp add: match_step_def)
next
  assume "match_step mref dt m = Inr (Some r)"
  then show "parse_duration (header_span2 m) = Inr (duration r)"
    by (rule match_step_duration)
next
  assume a: "match_step mref dt m = Inr (Some r) \<and> header_span2 m = [t] \<and>
    split CHR '':'' (strip t) = [h, mi, s] \<and>
    py_int h = Inr H \<and> py_int mi = Inr M \<and> py_int s = Inr S"
  then have "match_step mref dt m = Inr (Some r)" by simp
  then have "parse_duration (header_span2 m) = Inr (duration r)"
    by (rule match_step_duration)
  moreover from a have "parse_duration (header_span2 m) = Inr (Some (H * 60 + M))"
    by (simp add: parse_duration_def)
  ultimately show "duration r = Some (H * 60 + M)" by simp
next
  assume a: "match_step mref dt m = Inr (Some r) \<and> length (header_span2 m) \<noteq> 1"
  then have "match_step mref dt m = Inr (Some r)" by simp
  then have "parse_duration (header_span2 m) = Inr (duration r)"
    by (rule match_step_duration)
  moreover from a have "parse_duration (header_span2 m) = Inr None"
    by (simp add: parse_duration_def)
  ultimately show "duration r = None" by simp
qed

theorem duration_field_witness:
  "parse_duration [''01:45:10''] = Inr (Some (1 * 60 + 45)) \<and>
   parse_duration [] = Inr None \<and>
   parse_duration [''1:xx:00''] = Inl ValueError \<and>
   match_step sample_ref sample_date \<lparr>header_span2 = [''1:xx:00''], stats_items = []\<rparr>
     = Inl ValueError \<and>
   match_step sample_ref sample_date match_ab = Inr (Some result_ab) \<and>
   header_span2 match_ab = [''01:45:10''] \<and>
   duration result_ab = Some (1 * 60 + 45) \<and>
   match_step sample_ref sample_date match_no_duration
     = Inr (Some (result_ab\<lparr>duration := None\<rparr>)) \<and>
   length (header_span2 match_no_duration) \<noteq> 1 \<and>
   duration (result_ab\<lparr>duration := None\<rparr>) = None"
proof -
  note a = duration_field [of "''01:45:10''" "''01''" "''45''" "''10''" 1 45 10 "[]"
          "''1:xx:00''" sample_ref sample_date "[]" match_ab result_ab]
  note b = duration_field [of "''01:45:10''" "''01''" "''45''" "''10''" 1 45 10 "[]"
          "''1:xx:00''" sample_ref sample_date "[]" match_no_duration
          "result_ab\<lparr>duration := None\<rparr>"]
  have x: "\<not> (\<exists>h mi s H M S. split CHR '':'' (strip ''1:xx:00'') = [h, mi, s] \<and>
          py_int h = Inr H \<and> py_int mi = Inr M \<and> py_int s = Inr S)"
    using split_xx py_int_xx by auto
  from a split_ok have 1: "parse_duration [''01:45:10''] = Inr (Some (1 * 60 + 45))"
    by blast
  from a have 2: "parse_duration [] = Inr None" by simp
  from a x have 3: "parse_duration [''1:xx:00''] = Inl ValueError \<and>
      match_step sample_ref sample_date \<lparr>header_span2 = [''1:xx:00''], stats_items = []\<rparr>
        = Inl ValueError"
    by blast
  from a split_ok match_ab_result match_ab_header
  have 4: "duration result_ab = Some (1 * 60 + 45)" by blast
  from b match_no_duration_result
  have 5: "duration (result_ab\<lparr>duration := None\<rparr>) = None" by blast
  from 1 2 3 4 5 match_ab_result match_ab_header match_no_duration_result
  show ?thesis by blast
qed


text \<open>
  The claim as stated fails: a malformed duration does not degrade to an absent field,
  the match raises ValueError.
\<close>

theorem malformed_duration_counterexample:
  "match_step sample_ref sample_date match_bad_duration = Inl ValueError"
  by code_simp

subsection \<open>Day groups\<close>

lemma day_loop_fails:
  "tday \<in> set days \<Longrightarrow> (\<And>entries. \<exists>e. day_step tournament yr tday entries = Inl e)
     \<Longrightarrow> \<exists>e. day_loop days tournament yr entries = Inl e"
proof (induction days arbitrary: entries)
  case Nil
  then show ?case by simp
next
  case (Cons d days)
  show ?case
  proof (cases "day_step tournament yr d entries")
    case (Inl e)
    then show ?thesis by simp
  next
    case (Inr en)
    with Cons.prems(2) [of entries] have "d \<noteq> tday" by auto
    with Cons.prems(1) have "tday \<in> set days" by simp
    from Cons.IH [OF this Cons.prems(2)] Inr show ?thesis by simp
  qed
qed

lemma day_loop_append:
  "day_loop (pre @ rest) tournament yr entries =
     (case day_loop pre tournament yr entries of
        Inl e \<Rightarrow> Inl e
      | Inr en \<Rightarrow> day_loop rest tournament yr en)"
  by (induction pre arbitrary: entries) (auto split: sum.splits)

lemma page_fails:
  assumes "py_index (accordions doc) 0 = Inr acc" and "tday \<in> set acc"
    and "\<And>entries. \<exists>e. day_step tournament yr tday entries = Inl e"
  shows "\<exists>e. get_tournament_singles_results doc tournament yr = Inl e"
  using day_loop_fails [OF assms(2), of tournament yr "[]"] assms(1,3)
  by (simp add: get_tournament_singles_results_def)

lemma day_bad_date_facts:
  "py_index (day_h4 day_bad_date) 0 = Inr ''Tuesday 16 January 2024'' \<and>
   strptime (strip ''Tuesday 16 January 2024'') = Inl ValueError \<and>
   py_index (accordions \<lparr>accordions = [[day_ok, day_bad_date]]\<rparr>) 0 = Inr ([day_ok] @ day_bad_date # []) \<and>
   day_loop [day_ok] sample_tournament 2024 [] = Inr [result_ab]"
  by code_simp

lemma no_stats_hrefs:
  "\<forall>a \<in> set (cta_links tday). ''Stats'' \<notin> set (link_texts a) \<Longrightarrow> stats_hrefs tday = []"
  by (simp add: stats_hrefs_def)

lemma day_no_stats_facts:
  "(\<forall>a \<in> set (cta_links day_no_stats). ''Stats'' \<notin> set (link_texts a)) \<and>
   py_index (day_h4 day_no_stats) 0 = Inr ''Mon, 15 January, 2024'' \<and>
   strptime (strip ''Mon, 15 January, 2024'') = Inr sample_date \<and>
   py_index (accordions \<lparr>accordions = [[day_ok, day_no_stats]]\<rparr>) 0 = Inr [day_ok, day_no_stats] \<and>
   day_no_stats \<in> set [day_ok, day_no_stats]"
  by code_simp

text \<open>
  C8, as the code has it: a day group whose date text \<open>strptime\<close> rejects raises
  ValueError; nothing catches it, so the extraction of every page that holds such a
  day group fails and returns no record. When the day groups before it are processed
  without error, the error of the page is that ValueError.
\<close>

theorem bad_date_aborts_page:
  assumes "py_index (day_h4 tday) 0 = Inr t" and "strptime (strip t) = Inl e"
  shows "day_step tournament yr tday entries = Inl ValueError \<and>
         (py_index (accordions doc) 0 = Inr acc \<and> tday \<in> set acc
            \<longrightarrow> (\<exists>e'. get_tournament_singles_results doc tournament yr = Inl e')) \<and>
         (py_index (accordions doc) 0 = Inr (pre @ tday # post) \<and>
          day_loop pre tournament yr [] = Inr entries'
            \<longrightarrow> get_tournament_singles_results doc tournament yr = Inl ValueError)"
proof -
  from assms(2) have v: "strptime (strip t) = Inl ValueError"
    by (auto dest: strptime_error)
  have d: "day_step tournament yr tday en = Inl ValueError" for en
    using assms(1) v by (simp add: day_step_def)
  have "\<exists>e'. get_tournament_singles_results doc tournament yr = Inl e'"
    if "py_index (accordions doc) 0 = Inr acc \<and> tday \<in> set acc"
    using that d by (intro page_fails [of doc acc tday]) auto
  moreover have "get_tournament_singles_results doc tournament yr = Inl ValueError"
    if "py_index (accordions doc) 0 = Inr (pre @ tday # post) \<and>
        day_loop pre tournament yr [] = Inr entries'"
    using that d by (simp add: get_tournament_singles_results_def day_loop_append)
  ultimately show ?thesis using d by blast
qed

theorem bad_date_aborts_page_witness:
  "py_index (day_h4 day_bad_date) 0 = Inr ''Tuesday 16 January 2024'' \<and>
   strptime (strip ''Tuesday 16 January 2024'') = Inl ValueError \<and>
   day_step sample_tournament 2024 day_bad_date [result_ab] = Inl ValueError \<and>
   get_tournament_singles_results \<lparr>accordions = [[day_ok, day_bad_date]]\<rparr>
     sample_tournament 2024 = Inl ValueError"
  using bad_date_aborts_page [of day_bad_date "''Tuesday 16 January 2024''" ValueError
          sample_tournament 2024 "[result_ab]" "\<lparr>accordions = [[day_ok, day_bad_date]]\<rparr>"
          "[day_ok, day_bad_date]" "[day_ok]" "[]" "[result_ab]"]
        day_bad_date_facts
  by simp

text \<open>
  The claim as stated fails: the records of the well-formed first day group are not
  returned when the second day group has a date in another format.
\<close>

theorem bad_date_page_counterexample:
  "get_tournament_singles_results \<lparr>accordions = [[day_ok]]\<rparr> sample_tournament 2024
     = Inr [result_ab] \<and>
   get_tournament_singles_results \<lparr>accordions = [[day_ok, day_bad_date]]\<rparr>
     sample_tournament 2024 = Inl ValueError"
  by code_simp

text \<open>
  C6, as the code has it: for a day group none of whose links has the text
  \<open>Stats\<close>, the query for the match reference is empty and processing the day group
  raises an error, IndexError when its date parses; no match under it is processed
  and the extraction of a page that holds it fails.
\<close>

theorem missing_stats_link:
  assumes "\<forall>a \<in> set (cta_links tday). ''Stats'' \<notin> set (link_texts a)"
  shows "stats_hrefs tday = [] \<and>
         (\<exists>e. day_step tournament yr tday entries = Inl e) \<and>
         (py_index (day_h4 tday) 0 = Inr t \<and> strptime (strip t) = Inr dt
            \<longrightarrow> day_step tournament yr tday entries = Inl IndexError) \<and>
         (py_index (accordions doc) 0 = Inr acc \<and> tday \<in> set acc
            \<longrightarrow> (\<exists>e. get_tournament_singles_results doc tournament yr = Inl e))"
proof -
  from no_stats_hrefs [OF assms] have s: "stats_hrefs tday = []" .
  have d: "\<exists>e. day_step tournament yr tday en = Inl e" for en
  proof (cases "py_index (day_h4 tday) 0")
    case (Inl e)
    then show ?thesis by (simp add: day_step_def)
  next
    case (Inr u)
    with s show ?thesis
      by (cases "strptime (strip u)") (simp_all add: day_step_def py_index_def)
  qed
  have i: "day_step tournament yr tday entries = Inl IndexError"
    if "py_index (day_h4 tday) 0 = Inr t \<and> strptime (strip t) = Inr dt"
    using that s by (simp add: day_step_def py_index_def)
  have "\<exists>e. get_tournament_singles_results doc tournament yr = Inl e"
    if "py_index (accordions doc) 0 = Inr acc \<and> tday \<in> set acc"
    using that d by (intro page_fails [of doc acc tday]) auto
  with s d i show ?thesis by blast
qed

theorem missing_stats_link_witness:
  "list_all (\<lambda>a. ''Stats'' \<notin> set (link_texts a)) (cta_links day_no_stats) \<and>
   stats_hrefs day_no_stats = [] \<and>
   day_step sample_tournament 2024 day_no_stats [] = Inl IndexError \<and>
   (\<exists>e. get_tournament_singles_results \<lparr>accordions = [[day_ok, day_no_stats]]\<rparr>
          sample_tournament 2024 = Inl e)"
  using missing_stats_link [of day_no_stats sample_tournament 2024 "[]"
          "''Mon, 15 January, 2024''" sample_date "\<lparr>accordions = [[day_ok, day_no_stats]]\<rparr>"
          "[day_ok, day_no_stats]"]
        day_no_stats_facts
  by (simp add: list_all_iff)

text \<open>
  The claim as stated fails: a day group without a Stats link does not parse, it
  raises IndexError, and so does the page.
\<close>

theorem missing_stats_link_counterexample:
  "day_step sample_tournament 2024 day_no_stats [] = Inl IndexError \<and>
   get_tournament_singles_results \<lparr>accordions = [[day_no_stats]]\<rparr> sample_tournament 2024
     = Inl IndexError"
  by code_simp

subsection \<open>Discarded matches\<close>

lemma player_loop_winner_None:
  "player_loop items i (players, psets, ptbs, widx) = Inr (players', psets', ptbs', widx')
     \<Longrightarrow> (widx' = None) = (widx = None \<and> (\<forall>p \<in> set items. winner_divs p = 0))"
  by (induction items arbitrary: i players psets ptbs widx)
     (auto split: sum.splits prod.splits if_splits)

lemma parse_players_winner_None:
  "parse_players m = Inr (players, psets, ptbs, widx)
     \<Longrightarrow> (widx = None) = (\<forall>p \<in> set (stats_items m). winner_divs p = 0)"
  using player_loop_winner_None [of "stats_items m" 0 "[]" "[]" "[]" None players psets ptbs widx]
  by (simp add: parse_players_def)

lemma games_slot_eq:
  "py_index xss idx = Inr xs \<Longrightarrow> sp \<le> int (length xs) \<Longrightarrow> 0 \<le> k
     \<Longrightarrow> games_slot xss idx sp k = Inr (if sp \<ge> k + 1 then Some (xs ! nat k) else None)"
  by (simp add: games_slot_def py_index_def)

lemma tb_slot_eq:
  "py_index xss idx = Inr xs \<Longrightarrow> sp \<le> int (length xs) \<Longrightarrow> 0 \<le> k
     \<Longrightarrow> tb_slot xss idx sp k = Inr (if sp \<ge> k + 1 then xs ! nat k else None)"
  by (simp add: tb_slot_def py_index_def)

lemma assemble_total:
  assumes "py_index players widx = Inr pw" and "py_index players (1 - widx) = Inr pl"
    and "py_index psets widx = Inr ws" and "py_index psets (1 - widx) = Inr ls"
    and "py_index ptbs widx = Inr wt" and "py_index ptbs (1 - widx) = Inr lt"
    and "sp \<le> int (length ws)" and "sp \<le> int (length ls)"
    and "sp \<le> int (length wt)" and "sp \<le> int (length lt)"
  shows "\<exists>r. assemble mref dt dur players psets ptbs widx sp won = Inr r \<and>
             winner r = pw \<and> loser r = pl"
  using assms by (simp add: assemble_def games_slot_eq tb_slot_eq)

lemma match_step_emits:
  assumes d: "parse_duration (header_span2 m) = Inr dur"
    and bs: "stats_items m = [b0, b1]"
    and p: "parse_players m = Inr (players, psets, ptbs, Some widx)"
  shows "\<exists>r. match_step mref dt m = Inr (Some r) \<and>
             py_index players widx = Inr (winner r) \<and>
             py_index players (1 - widx) = Inr (loser r)"
proof -
  from parse_players_two [OF bs p] obtain h0 h1 p0 p1 s0 t0 s1 t1 where
    s: "score_loop (score_items b0) ([], []) = Inr (s0, t0)"
       "score_loop (score_items b1) ([], []) = Inr (s1, t1)" and
    e: "players = [p0, p1]" "psets = [s0, s1]" "ptbs = [t0, t1]" and
    w: "Some widx = (if 0 < winner_divs b1 then Some 1
                     else if 0 < winner_divs b0 then Some 0 else None)"
    by blast
  from s have l: "length s0 = length t0" "length s1 = length t1"
    by (auto dest: score_loop_lengths)
  from w have "widx = 0 \<or> widx = 1" by (auto split: if_splits)
  then show ?thesis
  proof
    assume z: "widx = 0"
    have a: "align_sets psets ptbs widx = Inr (set_loop (zip s0 (zip s1 t0)) (0, 0))"
      using z e by (simp add: align_sets_def)
    obtain sp won where sw: "set_loop (zip s0 (zip s1 t0)) (0, 0) = (sp, won)"
      by (cases "set_loop (zip s0 (zip s1 t0)) (0, 0)")
    then have sp: "sp = int (min (length s0) (length s1))"
      using l by (auto simp: set_loop_eq min_def)
    from assemble_total [of players widx p0 p1 psets s0 s1 ptbs t0 t1 sp mref dt dur won]
    obtain r where "assemble mref dt dur players psets ptbs widx sp won = Inr r"
      "winner r = p0" "loser r = p1"
      using z e l sp by auto
    with d p a sw z e show ?thesis by (simp add: match_step_def)
  next
    assume z: "widx = 1"
    have a: "align_sets psets ptbs widx = Inr (set_loop (zip s1 (zip s0 t1)) (0, 0))"
      using z e by (simp add: align_sets_def)
    obtain sp won where sw: "set_loop (zip s1 (zip s0 t1)) (0, 0) = (sp, won)"
      by (cases "set_loop (zip s1 (zip s0 t1)) (0, 0)")
    then have sp: "sp = int (min (length s1) (length s0))"
      using l by (auto simp: set_loop_eq min_def)
    from assemble_total [of players widx p1 p0 psets s1 s0 ptbs t1 t0 sp mref dt dur won]
    obtain r where "assemble mref dt dur players psets ptbs widx sp won = Inr r"
      "winner r = p1" "loser r = p0"
      using z e l sp by auto
    with d p a sw z e show ?thesis by (simp add: match_step_def)
  qed
qed

lemma match_no_winner_facts:
  "parse_duration (header_span2 match_no_winner) = Inr None \<and>
   parse_players match_no_winner =
     Inr ([player_a, player_b], [[6, 7], [4, 6]], [[None, Some 3], [None, None]], None) \<and>
   (length (stats_items match_no_winner) \<noteq> 2 \<or>
    (\<forall>p \<in> set (stats_items match_no_winner). winner_divs p = 0))"
  by code_simp

lemma match_both_marked_facts:
  "parse_duration (header_span2 match_both_marked) = Inr (Some 105) \<and>
   parse_players match_both_marked =
     Inr ([player_a, player_b], [[6, 7], [4, 6]], [[None, Some 3], [None, None]], Some 1) \<and>
   stats_items match_both_marked = [block_a, block_b_marked] \<and>
   0 < winner_divs block_a \<and> 0 < winner_divs block_b_marked"
  by code_simp

text \<open>
  C9, as the code has it: when the duration and the competitor blocks of a match are
  read without error and the match has a number of competitor blocks other than two,
  or no block with the winner marker, no record is emitted and the loop goes on with
  the next match. When both of two blocks carry the marker the match is not
  discarded: a record is emitted with the second block's player as the winner.
\<close>

theorem discard_without_two_or_winner:
  "(parse_duration (header_span2 m) = Inr dur \<and>
    parse_players m = Inr (players, psets, ptbs, widx) \<and>
    (length (stats_items m) \<noteq> 2 \<or> (\<forall>p \<in> set (stats_items m). winner_divs p = 0))
      \<longrightarrow> match_step mref dt m = Inr None \<and>
          match_loop (m # rest) mref dt entries = match_loop rest mref dt entries) \<and>
   (parse_duration (header_span2 m') = Inr dur' \<and>
    parse_players m' = Inr (players', psets', ptbs', widx') \<and>
    stats_items m' = [b0, b1] \<and> 0 < winner_divs b0 \<and> 0 < winner_divs b1
      \<longrightarrow> (\<exists>r. match_step mref dt m' = Inr (Some r) \<and>
               py_index players' 1 = Inr (winner r) \<and>
               py_index players' 0 = Inr (loser r)))"
proof (intro conjI impI)
  assume a: "parse_duration (header_span2 m) = Inr dur \<and>
    parse_players m = Inr (players, psets, ptbs, widx) \<and>
    (length (stats_items m) \<noteq> 2 \<or> (\<forall>p \<in> set (stats_items m). winner_divs p = 0))"
  then have p: "parse_players m = Inr (players, psets, ptbs, widx)" by simp
  from a parse_players_length [OF p] parse_players_winner_None [OF p]
  have "length players \<noteq> 2 \<or> widx = None" by auto
  with a show s: "match_step mref dt m = Inr None"
    by (auto simp: match_step_def)
  then show "match_loop (m # rest) mref dt entries = match_loop rest mref dt entries"
    by simp
next
  assume a: "parse_duration (header_span2 m') = Inr dur' \<and>
    parse_players m' = Inr (players', psets', ptbs', widx') \<and>
    stats_items m' = [b0, b1] \<and> 0 < winner_divs b0 \<and> 0 < winner_divs b1"
  then have bs: "stats_items m' = [b0, b1]"
    and p: "parse_players m' = Inr (players', psets', ptbs', widx')"
    and d: "parse_duration (header_span2 m') = Inr dur'" by simp_all
  from parse_players_two [OF bs p] a have w: "widx' = Some 1" by auto
  from match_step_emits [OF d bs p [unfolded w]]
  show "\<exists>r. match_step mref dt m' = Inr (Some r) \<and>
               py_index players' 1 = Inr (winner r) \<and>
               py_index players' 0 = Inr (loser r)"
    by simp
qed

theorem discard_without_two_or_winner_witness:
  "parse_duration (header_span2 match_no_winner) = Inr None \<and>
   parse_players match_no_winner =
     Inr ([player_a, player_b], [[6, 7], [4, 6]], [[None, Some 3], [None, None]], None) \<and>
   list_all (\<lambda>p. winner_divs p = 0) (stats_items match_no_winner) \<and>
   match_step sample_ref sample_date match_no_winner = Inr None \<and>
   match_loop (match_no_winner # [match_ab]) sample_ref sample_date []
     = match_loop [match_ab] sample_ref sample_date [] \<and>
   0 < winner_divs block_a \<and> 0 < winner_divs block_b_marked \<and>
   (\<exists>r. match_step sample_ref sample_date match_both_marked = Inr (Some r) \<and>
        py_index [player_a, player_b] 1 = Inr (winner r) \<and>
        py_index [player_a, player_b] 0 = Inr (loser r))"
proof -
  have a: "list_all (\<lambda>p. winner_divs p = 0) (stats_items match_no_winner)"
    by code_simp
  from discard_without_two_or_winner [of match_no_winner None "[player_a, player_b]"
          "[[6, 7], [4, 6]]" "[[None, Some 3], [None, None]]" None sample_ref sample_date
          "[match_ab]" "[]" match_both_marked "Some 105" "[player_a, player_b]"
          "[[6, 7], [4, 6]]" "[[None, Some 3], [None, None]]" "Some 1" block_a block_b_marked]
       match_no_winner_facts match_both_marked_facts
  have "match_step sample_ref sample_date match_no_winner = Inr None \<and>
        match_loop (match_no_winner # [match_ab]) sample_ref sample_date []
          = match_loop [match_ab] sample_ref sample_date [] \<and>
        (\<exists>r. match_step sample_ref sample_date match_both_marked = Inr (Some r) \<and>
             py_index [player_a, player_b] 1 = Inr (winner r) \<and>
             py_index [player_a, player_b] 0 = Inr (loser r))"
    by blast
  with a match_no_winner_facts match_both_marked_facts show ?thesis by blast
qed

text \<open>
  The claim as stated fails: a match whose two competitor blocks both carry the winner
  marker emits a record.
\<close>

theorem both_marked_counterexample:
  "0 < winner_divs block_a \<and> 0 < winner_divs block_b_marked \<and>
   stats_items match_both_marked = [block_a, block_b_marked] \<and>
   match_step sample_ref sample_date match_both_marked = Inr (Some result_both_marked) \<and>
   match_loop [match_both_marked] sample_ref sample_date [] = Inr [result_both_marked]"
  by code_simp

subsection \<open>Score entries of another token count\<close>

lemma length_two: "length xs = 2 \<Longrightarrow> \<exists>x0 x1. xs = [x0, x1]"
  by (auto simp: length_Suc_conv numeral_2_eq_2)

lemma score_loop_skip:
  "length scores \<noteq> 1 \<Longrightarrow> length scores \<noteq> 2
     \<Longrightarrow> score_loop (pre @ scores # post) acc = score_loop (pre @ post) acc"
proof (induction pre arbitrary: acc)
  case Nil
  then show ?case by (cases acc) simp
next
  case (Cons x pre)
  then show ?case by (cases acc) (auto split: sum.splits)
qed

lemma player_loop_skip:
  assumes "length scores \<noteq> 1" and "length scores \<noteq> 2"
  shows "player_loop (A @ b\<lparr>score_items := pre @ scores # post\<rparr> # B) i st =
         player_loop (A @ b\<lparr>score_items := pre @ post\<rparr> # B) i st"
proof (induction A arbitrary: i st)
  case Nil
  show ?case
    by (cases st) (auto simp: score_loop_skip [OF assms] split: sum.splits prod.splits)
next
  case (Cons a A)
  then show ?case
    by (cases st) (auto split: sum.splits prod.splits)
qed

lemma three_tokens_facts:
  "length [''1'', ''2'', ''3''] \<noteq> 1 \<and> length [''1'', ''2'', ''3''] \<noteq> 2 \<and>
   parse_duration [] = Inr None \<and> length ([] @ block_three_tokens # [block_three_sets]) = 2 \<and>
   parse_players \<lparr>header_span2 = [],
      stats_items = [] @ block_three_tokens\<lparr>score_items := [[''6'']] @ [[''7'']]\<rparr> # [block_three_sets]\<rparr>
     = Inr ([player_a, player_b], [[6, 7], [4, 3, 5]], [[None, None], [None, None, None]], Some 0) \<and>
   block_three_tokens\<lparr>score_items := [[''6'']] @ [''1'', ''2'', ''3''] # [[''7'']]\<rparr> = block_three_tokens"
  by code_simp

text \<open>
  C10, as the code has it: a score entry whose token count is neither one nor two
  appends nothing and raises nothing. The competitor's sequences are those of the
  remaining entries, so the later entries move up one position and no gap is kept,
  and the match is processed exactly as if the entry were not there: when, with the
  entry removed, the duration is readable, the match has two competitor blocks that
  are read without error and a winner marker is found, it emits a record.
\<close>

theorem skipped_score_entry:
  assumes "length scores \<noteq> 1" and "length scores \<noteq> 2"
  shows "score_loop (pre @ scores # post) acc = score_loop (pre @ post) acc \<and>
         match_step mref dt
           \<lparr>header_span2 = h, stats_items = A @ b\<lparr>score_items := pre @ scores # post\<rparr> # B\<rparr>
         = match_step mref dt
           \<lparr>header_span2 = h, stats_items = A @ b\<lparr>score_items := pre @ post\<rparr> # B\<rparr> \<and>
         (parse_duration h = Inr dur \<and> length (A @ b # B) = 2 \<and>
          parse_players \<lparr>header_span2 = h, stats_items = A @ b\<lparr>score_items := pre @ post\<rparr> # B\<rparr>
            = Inr (players, psets, ptbs, Some widx)
          \<longrightarrow> (\<exists>r. match_step mref dt
                  \<lparr>header_span2 = h,
                   stats_items = A @ b\<lparr>score_items := pre @ scores # post\<rparr> # B\<rparr>
                = Inr (Some r)))"
proof (intro conjI impI)
  show "score_loop (pre @ scores # post) acc = score_loop (pre @ post) acc"
    by (rule score_loop_skip [OF assms])
  show e: "match_step mref dt
           \<lparr>header_span2 = h, stats_items = A @ b\<lparr>score_items := pre @ scores # post\<rparr> # B\<rparr>
         = match_step mref dt
           \<lparr>header_span2 = h, stats_items = A @ b\<lparr>score_items := pre @ post\<rparr> # B\<rparr>"
    by (simp add: match_step_def parse_players_def player_loop_skip [OF assms])
  assume a: "parse_duration h = Inr dur \<and> length (A @ b # B) = 2 \<and>
          parse_players \<lparr>header_span2 = h, stats_items = A @ b\<lparr>score_items := pre @ post\<rparr> # B\<rparr>
            = Inr (players, psets, ptbs, Some widx)"
  let ?m = "\<lparr>header_span2 = h, stats_items = A @ b\<lparr>score_items := pre @ post\<rparr> # B\<rparr>"
  from a have "length (stats_items ?m) = 2" by simp
  from length_two [OF this] obtain b0 b1 where bs: "stats_items ?m = [b0, b1]"
    by blast
  from a have d: "parse_duration (header_span2 ?m) = Inr dur"
    and p: "parse_players ?m = Inr (players, psets, ptbs, Some widx)" by simp_all
  from match_step_emits [OF d bs p, of mref dt] e
  show "\<exists>r. match_step mref dt
                  \<lparr>header_span2 = h,
                   stats_items = A @ b\<lparr>score_items := pre @ scores # post\<rparr> # B\<rparr>
                = Inr (Some r)"
    by auto
qed

theorem skipped_score_entry_witness:
  "length [''1'', ''2'', ''3''] \<noteq> 1 \<and> length [''1'', ''2'', ''3''] \<noteq> 2 \<and>
   score_loop ([[''6'']] @ [''1'', ''2'', ''3''] # [[''7'']]) ([], [])
     = score_loop ([[''6'']] @ [[''7'']]) ([], []) \<and>
   (\<exists>r. match_step sample_ref sample_date
          \<lparr>header_span2 = [],
           stats_items = [] @ block_three_tokens\<lparr>score_items :=
                            [[''6'']] @ [''1'', ''2'', ''3''] # [[''7'']]\<rparr> # [block_three_sets]\<rparr>
        = Inr (Some r))"
proof -
  have l: "length [''1'', ''2'', ''3''] \<noteq> 1" "length [''1'', ''2'', ''3''] \<noteq> 2"
    by simp_all
  from skipped_score_entry [OF l, of "[[''6'']]" "[[''7'']]" "([], [])" sample_ref sample_date
         "[]" "[]" block_three_tokens "[block_three_sets]" None "[player_a, player_b]"
         "[[6, 7], [4, 3, 5]]" "[[None, None], [None, None, None]]" 0]
       three_tokens_facts l
  show ?thesis by blast
qed

text \<open>
  The claim as stated fails: when the winner's second entry of three is skipped, the
  second slot of the record is not a gap. It holds the winner's third entry against
  the loser's second, and the third slot is the one left absent.
\<close>

theorem no_gap_counterexample:
  "score_items block_three_tokens = [[''6''], [''1'', ''2'', ''3''], [''7'']] \<and>
   score_items block_three_sets = [[''4''], [''3''], [''5'']] \<and>
   match_step sample_ref sample_date match_three_tokens = Inr (Some result_three_tokens) \<and>
   w2 result_three_tokens = Some 7 \<and> l2 result_three_tokens = Some 3 \<and>
   w3 result_three_tokens = None \<and> l3 result_three_tokens = None"
  by code_simp

end
